theory Spec2Isabelle
  imports Main
begin

section \<open>Python values, exceptions and the object store\<close>

text \<open>
  The values a context or a snippet definition holds under its string keys. A definition
  loaded from YAML may carry scalars other than strings; lists, nested mappings and
  floats are outside this model.
\<close>

datatype pyval = PyNone | PyStr string | PyInt int | PyBool bool

type_synonym pydict = "string \<rightharpoonup> pyval"

text \<open>
  What \<^verbatim>\<open>pathlib\<close> and file objects raise: \<^verbatim>\<open>resolve()\<close> a \<open>ValueError\<close> on an embedded null
  byte or a \<open>RuntimeError\<close> on a symlink loop, \<^verbatim>\<open>exists()\<close> an \<open>OSError\<close> such as a name that
  is too long, \<^verbatim>\<open>open()\<close> an \<open>OSError\<close> such as \<^verbatim>\<open>IsADirectoryError\<close> or \<^verbatim>\<open>PermissionError\<close>, and
  \<^verbatim>\<open>read()\<close> a \<open>UnicodeDecodeError\<close>. An \<open>OSError\<close> carries the name of its class or errno.
\<close>

datatype io_exn = ValueError | RuntimeError | OSError string | UnicodeDecodeError

text \<open>
  Every \<^verbatim>\<open>raise\<close> of the source is a value of \<open>exn\<close>. \<open>KeyError\<close> and \<open>TypeError\<close> are the
  builtin exceptions that subscripting a dict and joining a path with a non-string raise;
  \<open>LibraryError\<close> passes on what a file-system operation raised; \<open>OtherException\<close> stands
  for any exception class of the device-session library.
\<close>

datatype exn =
    SkilletValidationException string
  | SkilletLoaderException string
  | KeyError string
  | TypeError
  | LibraryError io_exn
  | OtherException string

text \<open>\<^verbatim>\<open>str(v)\<close>, as used by \<^verbatim>\<open>'%s' % v\<close> and by an f-string.\<close>

fun nat_digits :: "nat \<Rightarrow> string" where
  "nat_digits n =
     (if n < 10 then [''0123456789'' ! n]
      else nat_digits (n div 10) @ [''0123456789'' ! (n mod 10)])"

declare nat_digits.simps [simp del]

fun py_str :: "pyval \<Rightarrow> string" where
  "py_str PyNone = ''None''"
| "py_str (PyStr s) = s"
| "py_str (PyInt i) = (if i < 0 then CHR ''-'' # nat_digits (nat (- i)) else nat_digits (nat i))"
| "py_str (PyBool b) = (if b then ''True'' else ''False'')"

text \<open>
  The two ways the source calls the constructor of the device-session class:
  \<^verbatim>\<open>Panoply()\<close> and
  \<^verbatim>\<open>Panoply(hostname=..., api_username=..., api_password=..., api_port=...)\<close>.
\<close>

datatype panoply_args =
    NoArguments
  | Keywords (hostname: pyval) (api_username: pyval) (api_password: pyval) (api_port: pyval)

text \<open>
  What leaves the program: calls into the device-session class and log records, in the
  order in which they happen.
\<close>

datatype event =
    PanoplyInit panoply_args
  | GetConfiguration
  | LoggerInfo string
  | LoggerError string

text \<open>
  The device-session class \<^verbatim>\<open>skilletlib.panoply.Panoply\<close> is an external collaborator:
  its constructor, its \<^verbatim>\<open>connected\<close> attribute and its \<^verbatim>\<open>get_configuration()\<close> method are
  parameters of the model, over an arbitrary type \<open>'p\<close> of session handles.
\<close>

record 'p panoply_module =
  Panoply :: "panoply_args \<Rightarrow> exn + 'p"
  connected :: "'p \<Rightarrow> bool"
  get_configuration :: "'p \<Rightarrow> exn + pyval"

text \<open>
  Dicts are objects: a dict is named by its index in the store, \<^verbatim>\<open>dict()\<close> appends a new
  one, and an assignment through one name is seen through every other name of the same
  index. The world also carries the trace of events.
\<close>

record world =
  dicts :: "pydict list"
  trace :: "event list"

record 'p PanosSkillet =
  panoply :: "'p option"
  path :: string
  snippet_stack :: "nat list"

text \<open>
  \<^verbatim>\<open>PanosSkillet.__init__(metadata, panoply=None)\<close>: an argument \<open>panoply\<close> that is not
  \<^verbatim>\<open>None\<close> is stored on the instance, and otherwise the class attribute \<^verbatim>\<open>panoply = None\<close>
  shows through. What the \<^verbatim>\<open>__init__\<close> of the base class, which is not among the sources,
  reads from the metadata is taken as given: the path and the snippet stack.
\<close>

definition new_PanosSkillet :: "string \<Rightarrow> nat list \<Rightarrow> 'p option \<Rightarrow> 'p PanosSkillet" where
  "new_PanosSkillet metadata_path metadata_snippets panoply_arg =
     \<lparr>panoply = (case panoply_arg of None \<Rightarrow> None | Some p \<Rightarrow> Some p),
      path = metadata_path, snippet_stack = metadata_snippets\<rparr>"

definition new_dict :: "world \<Rightarrow> nat \<times> world" where
  "new_dict w = (length (dicts w), w\<lparr>dicts := dicts w @ [Map.empty]\<rparr>)"

definition dict_update :: "nat \<Rightarrow> pydict \<Rightarrow> world \<Rightarrow> world" where
  "dict_update a other w = w\<lparr>dicts := (dicts w)[a := (dicts w ! a) ++ other]\<rparr>"

definition setitem :: "nat \<Rightarrow> string \<Rightarrow> pyval \<Rightarrow> world \<Rightarrow> world" where
  "setitem a k v w = w\<lparr>dicts := (dicts w)[a := (dicts w ! a)(k \<mapsto> v)]\<rparr>"

definition dict_get :: "pydict \<Rightarrow> string \<Rightarrow> pyval \<Rightarrow> pyval" where
  "dict_get d k dflt = (case d k of None \<Rightarrow> dflt | Some v \<Rightarrow> v)"

definition emit :: "event \<Rightarrow> world \<Rightarrow> world" where
  "emit e w = w\<lparr>trace := trace w @ [e]\<rparr>"

text \<open>\<^verbatim>\<open>req.issubset(d)\<close> iterates the keys of the dict \<open>d\<close>.\<close>

definition issubset :: "string set \<Rightarrow> pydict \<Rightarrow> bool" where
  "issubset req d = (\<forall>k\<in>req. d k \<noteq> None)"

section \<open>The context initializer\<close>

definition online_required_fields :: "string set" where
  "online_required_fields = {''panos_hostname'', ''panos_username'', ''panos_password''}"

definition offline_required_fields :: "string set" where
  "offline_required_fields = {''config''}"

text \<open>
  \<^verbatim>\<open>PanosSkillet.initialize_context\<close>. The argument \<open>initial_context\<close> and the result are
  store indices; the skillet and the world are passed through, and what was done before a
  \<^verbatim>\<open>raise\<close> stays done.
\<close>

definition initialize_context ::
  "'p panoply_module \<Rightarrow> 'p PanosSkillet \<Rightarrow> world \<Rightarrow> nat
     \<Rightarrow> (exn + nat) \<times> 'p PanosSkillet \<times> world" where
  "initialize_context env self w initial_context =
     (let ic = dicts w ! initial_context;
          (ctxt, w1) = new_dict w;
          w2 = dict_update ctxt ic w1
      in case panoply self of
           None \<Rightarrow>
             if \<not> issubset online_required_fields ic \<and> \<not> issubset offline_required_fields ic
             then (Inl (SkilletValidationException
                     ''Required fields for panos skillet not found in context!''), self, w2)
             else if issubset online_required_fields ic
             then
               (let hostname = dict_get ic ''panos_hostname'' PyNone;
                    username = dict_get ic ''panos_username'' PyNone;
                    password = dict_get ic ''panos_password'' PyNone;
                    port = dict_get ic ''panos_port'' (PyStr ''443'');
                    args = Keywords hostname username password port;
                    w3 = emit (PanoplyInit args) w2
                in case Panoply env args of
                     Inl e \<Rightarrow> (Inl e, self, w3)
                   | Inr p \<Rightarrow>
                       (let self' = self\<lparr>panoply := Some p\<rparr>;
                            w4 = emit GetConfiguration w3
                        in case get_configuration env p of
                             Inl e \<Rightarrow> (Inl e, self', w4)
                           | Inr c \<Rightarrow> (Inr ctxt, self', setitem ctxt ''config'' c w4)))
             else
               (let w3 = emit (LoggerInfo ''offline mode detected for skilletlib.skillet.panos'') w2;
                    w4 = emit (PanoplyInit NoArguments) w3
                in case Panoply env NoArguments of
                     Inl e \<Rightarrow> (Inl e, self, w4)
                   | Inr p \<Rightarrow> (Inr ctxt, self\<lparr>panoply := Some p\<rparr>, w4))
         | Some p \<Rightarrow>
             if connected env p
             then
               (let w3 = emit GetConfiguration w2
                in case get_configuration env p of
                     Inl e \<Rightarrow> (Inl e, self, w3)
                   | Inr c \<Rightarrow> (Inr ctxt, self, setitem ctxt ''config'' c w3))
             else (Inl (SkilletLoaderException
                     ''Could not get configuration as Panoply is not connected!''), self, w2))"

text \<open>
  Modelled from the spec: the class \<^verbatim>\<open>skilletlib.panoply.Panoply\<close> is not among the sources,
  so which of its operations reach the device is taken from the interface table of the
  spec: the constructor with connection fields establishes a session,
  \<^verbatim>\<open>get_configuration()\<close> fetches from the device, and the constructor without arguments
  builds a placeholder with no network activity. Log records stay in the process.
\<close>

fun network_call :: "event \<Rightarrow> bool" where
  "network_call (PanoplyInit NoArguments) = False"
| "network_call (PanoplyInit (Keywords h u pw port)) = True"
| "network_call GetConfiguration = True"
| "network_call (LoggerInfo m) = False"
| "network_call (LoggerError m) = False"

text \<open>
  Modelled from the spec: the mock capability of the end-to-end example, for the class
  \<^verbatim>\<open>skilletlib.panoply.Panoply\<close> that is not among the sources. A handle remembers the
  arguments it was built from; it is connected iff it was built with connection fields,
  and \<^verbatim>\<open>get_configuration()\<close> answers \<^verbatim>\<open><config/>\<close> when connected and fails otherwise.
\<close>

definition mock_panoply :: "panoply_args panoply_module" where
  "mock_panoply =
     \<lparr>Panoply = (\<lambda>args. Inr args),
      connected = (\<lambda>p. p \<noteq> NoArguments),
      get_configuration = (\<lambda>p. if p \<noteq> NoArguments then Inr (PyStr ''<config/>'')
                                else Inl (OtherException ''not connected''))\<rparr>"

section \<open>The snippet content resolver\<close>

text \<open>
  The file system is read only, and each of its operations may raise:
  \<open>joinpath_resolve base file\<close> is \<^verbatim>\<open>base.joinpath(file).resolve()\<close> for a string \<open>file\<close>,
  \<open>path_exists p\<close> is \<^verbatim>\<open>p.exists()\<close>, and \<open>open_read p\<close> is the text that
  \<^verbatim>\<open>with p.open() as sf: sf.read()\<close> reads. The three are independent parameters, so a file
  that exists need not be readable.
\<close>

record filesystem =
  joinpath_resolve :: "string \<Rightarrow> string \<Rightarrow> io_exn + string"
  path_exists :: "string \<Rightarrow> io_exn + bool"
  open_read :: "string \<Rightarrow> io_exn + string"

text \<open>
  \<^verbatim>\<open>PanosSkillet.load_element\<close>. It assigns \<^verbatim>\<open>element\<close> in the dict it was given and returns
  that same dict. The message of the hard failure and the log record both subscript
  \<^verbatim>\<open>snippet_def['name']\<close>, which raises \<open>KeyError\<close> when there is no name; \<^verbatim>\<open>joinpath\<close> raises
  \<open>TypeError\<close> on a \<^verbatim>\<open>file\<close> that is not a string; what \<^verbatim>\<open>resolve()\<close>, \<^verbatim>\<open>exists()\<close>, \<^verbatim>\<open>open()\<close>
  and \<^verbatim>\<open>read()\<close> raise is passed on.
\<close>

definition load_element :: "filesystem \<Rightarrow> world \<Rightarrow> nat \<Rightarrow> string \<Rightarrow> (exn + nat) \<times> world" where
  "load_element fs w snippet_def snippet_path =
     (let d = dicts w ! snippet_def
      in if d ''element'' = None \<or> d ''element'' = Some (PyStr [])
         then
           (case d ''file'' of
              None \<Rightarrow>
                (case d ''name'' of
                   None \<Rightarrow> (Inl (KeyError ''name''), w)
                 | Some n \<Rightarrow>
                     (Inl (SkilletLoaderException
                        (''YAMLError: Could not parse metadata file for snippet '' @ py_str n)), w))
            | Some (PyStr file) \<Rightarrow>
                (case joinpath_resolve fs snippet_path file of
                   Inl x \<Rightarrow> (Inl (LibraryError x), w)
                 | Inr snippet_file \<Rightarrow>
                     (case path_exists fs snippet_file of
                        Inl x \<Rightarrow> (Inl (LibraryError x), w)
                      | Inr True \<Rightarrow>
                          (case open_read fs snippet_file of
                             Inl x \<Rightarrow> (Inl (LibraryError x), w)
                           | Inr content \<Rightarrow>
                               (Inr snippet_def,
                                setitem snippet_def ''element'' (PyStr content) w))
                      | Inr False \<Rightarrow>
                          (case d ''name'' of
                             None \<Rightarrow> (Inl (KeyError ''name''), w)
                           | Some n \<Rightarrow>
                               (Inr snippet_def,
                                emit (LoggerError
                                  (''Could not load the referenced file for '' @ py_str n)) w))))
            | Some _ \<Rightarrow> (Inl TypeError, w))
         else (Inr snippet_def, w))"

section \<open>The snippet stack materializer\<close>

text \<open>
  Modelled from the spec: the class \<^verbatim>\<open>skilletlib.snippet.panos.PanosSnippet\<close> is not among
  the sources; by the spec an executable snippet is the pairing of a definition with a
  reference to the device-session capability, and constructing it does nothing else.
\<close>

datatype 'p PanosSnippet = PanosSnippet (metadata: nat) (snippet_panoply: "'p option")

text \<open>The \<^verbatim>\<open>for\<close> loop of \<^verbatim>\<open>get_snippets\<close>; \<open>snippet_list\<close> is the list built so far.\<close>

fun get_snippets_loop ::
  "filesystem \<Rightarrow> 'p PanosSkillet \<Rightarrow> string \<Rightarrow> nat list \<Rightarrow> world \<Rightarrow> 'p PanosSnippet list
     \<Rightarrow> (exn + 'p PanosSnippet list) \<times> world" where
  "get_snippets_loop fs self snippet_path [] w snippet_list = (Inr snippet_list, w)"
| "get_snippets_loop fs self snippet_path (snippet_def # rest) w snippet_list =
     (if (dicts w ! snippet_def) ''cmd'' = None
         \<or> (dicts w ! snippet_def) ''cmd'' = Some (PyStr ''set'')
      then
        (case load_element fs w snippet_def snippet_path of
           (Inl e, w') \<Rightarrow> (Inl e, w')
         | (Inr snippet_def', w') \<Rightarrow>
             get_snippets_loop fs self snippet_path rest w'
               (snippet_list @ [PanosSnippet snippet_def' (panoply self)]))
      else
        get_snippets_loop fs self snippet_path rest w
          (snippet_list @ [PanosSnippet snippet_def (panoply self)]))"

definition get_snippets ::
  "filesystem \<Rightarrow> 'p PanosSkillet \<Rightarrow> world \<Rightarrow> (exn + 'p PanosSnippet list) \<times> world" where
  "get_snippets fs self w = get_snippets_loop fs self (path self) (snippet_stack self) w []"

section \<open>Predicates on snippet definitions\<close>

text \<open>
  The two tests of the source on a snippet definition, named for use in statements:
  \<^verbatim>\<open>'element' not in snippet_def or snippet_def['element'] == ''\<close> in \<^verbatim>\<open>load_element\<close>, and
  \<^verbatim>\<open>'cmd' not in snippet_def or snippet_def['cmd'] == 'set'\<close> in \<^verbatim>\<open>get_snippets\<close>.
\<close>

definition element_missing :: "pydict \<Rightarrow> bool" where
  "element_missing d = (d ''element'' = None \<or> d ''element'' = Some (PyStr []))"

definition resolved_by_get_snippets :: "pydict \<Rightarrow> bool" where
  "resolved_by_get_snippets d = (d ''cmd'' = None \<or> d ''cmd'' = Some (PyStr ''set''))"

text \<open>
  Whether \<^verbatim>\<open>load_element\<close> raises on a dict with the contents \<open>d\<close>: the function itself, run
  on a store that holds only \<open>d\<close>.
\<close>

definition load_element_raises :: "filesystem \<Rightarrow> string \<Rightarrow> pydict \<Rightarrow> bool" where
  "load_element_raises fs snippet_path d =
     isl (fst (load_element fs \<lparr>dicts = [d], trace = []\<rparr> 0 snippet_path))"

text \<open>
  \<open>names_empty_file\<close>: the \<^verbatim>\<open>file\<close> of the definition is a string, its path resolves and
  exists, and what is read from it is the empty text. \<open>element_settled\<close> is the state in
  which the resolver leaves a definition whose content it has: \<^verbatim>\<open>element\<close> is present and not
  the empty string, or it is the empty string read from the empty file that \<^verbatim>\<open>file\<close> names.
\<close>

definition names_empty_file :: "filesystem \<Rightarrow> string \<Rightarrow> pydict \<Rightarrow> bool" where
  "names_empty_file fs snippet_path d =
     (case d ''file'' of
        Some (PyStr file) \<Rightarrow>
          (case joinpath_resolve fs snippet_path file of
             Inr snippet_file \<Rightarrow>
               path_exists fs snippet_file = Inr True \<and> open_read fs snippet_file = Inr []
           | Inl x \<Rightarrow> False)
      | _ \<Rightarrow> False)"

definition element_settled :: "filesystem \<Rightarrow> string \<Rightarrow> pydict \<Rightarrow> bool" where
  "element_settled fs snippet_path d =
     (\<not> element_missing d
      \<or> (names_empty_file fs snippet_path d \<and> d ''element'' = Some (PyStr [])))"

section \<open>Example inputs\<close>

text \<open>A skillet built without a capability, and one that was handed an offline handle.\<close>

definition fresh_skillet :: "panoply_args PanosSkillet" where
  "fresh_skillet = new_PanosSkillet ''/skillets/example'' [0, 1, 2] None"

definition injected_skillet :: "panoply_args PanosSkillet" where
  "injected_skillet = new_PanosSkillet ''/skillets/example'' [0, 1, 2] (Some NoArguments)"

text \<open>Stores whose dict 0 is the caller's initial context.\<close>

definition online_inputs :: world where
  "online_inputs =
     \<lparr>dicts = [[''panos_hostname'' \<mapsto> PyStr ''fw.local'', ''panos_username'' \<mapsto> PyStr ''admin'',
                ''panos_password'' \<mapsto> PyStr ''secret'', ''config'' \<mapsto> PyStr ''<old/>'']],
      trace = []\<rparr>"

definition offline_inputs :: world where
  "offline_inputs = \<lparr>dicts = [[''config'' \<mapsto> PyStr ''<config><x/></config>'']], trace = []\<rparr>"

definition incomplete_inputs :: world where
  "incomplete_inputs =
     \<lparr>dicts = [[''panos_hostname'' \<mapsto> PyStr ''fw.local'', ''panos_username'' \<mapsto> PyStr ''admin'']],
      trace = []\<rparr>"

text \<open>
  A store with three input mappings of one caller: 0 has \<^verbatim>\<open>config\<close> only, 1 has the three
  online-required fields, 2 has neither set. \<open>after_offline_call\<close> is what the first call
  of \<^verbatim>\<open>initialize_context\<close> on a skillet built without a capability gives on mapping 0:
  its outcome, the skillet and the world it leaves.
\<close>

definition session_inputs :: world where
  "session_inputs =
     \<lparr>dicts =
        [[''config'' \<mapsto> PyStr ''<config><x/></config>''],
         [''panos_hostname'' \<mapsto> PyStr ''fw.local'', ''panos_username'' \<mapsto> PyStr ''admin'',
          ''panos_password'' \<mapsto> PyStr ''secret''],
         [''panos_hostname'' \<mapsto> PyStr ''fw.local'']],
      trace = []\<rparr>"

definition after_offline_call :: "(exn + nat) \<times> panoply_args PanosSkillet \<times> world" where
  "after_offline_call = initialize_context mock_panoply fresh_skillet session_inputs 0"

text \<open>
  A store of snippet definitions: 0 carries its content inline, 1 names a file that does
  not exist, 2 is not a \<^verbatim>\<open>set\<close> operation, 3 has neither content nor file, 4 names an empty
  file, 5 names a file with content, 6 has the \<^verbatim>\<open>element\<close> \<^verbatim>\<open>None\<close> of a YAML null and no file.
  In the file system two files exist under the directory of the skillet.
\<close>

definition snippet_store :: world where
  "snippet_store =
     \<lparr>dicts =
        [[''name'' \<mapsto> PyStr ''inline'', ''element'' \<mapsto> PyStr ''<entry/>''],
         [''name'' \<mapsto> PyStr ''missing'', ''cmd'' \<mapsto> PyStr ''set'', ''file'' \<mapsto> PyStr ''missing.xml''],
         [''name'' \<mapsto> PyStr ''show'', ''cmd'' \<mapsto> PyStr ''op''],
         [''name'' \<mapsto> PyStr ''broken''],
         [''name'' \<mapsto> PyStr ''blank'', ''file'' \<mapsto> PyStr ''blank.xml''],
         [''name'' \<mapsto> PyStr ''loaded'', ''file'' \<mapsto> PyStr ''loaded.xml''],
         [''name'' \<mapsto> PyStr ''nulled'', ''element'' \<mapsto> PyNone]],
      trace = []\<rparr>"

definition example_fs :: filesystem where
  "example_fs =
     \<lparr>joinpath_resolve = (\<lambda>base file. Inr (base @ ''/'' @ file)),
      path_exists = (\<lambda>p. Inr (p = ''/skillets/example/blank.xml''
                                \<or> p = ''/skillets/example/loaded.xml'')),
      open_read = (\<lambda>p. if p = ''/skillets/example/blank.xml'' then Inr []
                        else if p = ''/skillets/example/loaded.xml'' then Inr ''<tag/>''
                        else Inl (OSError ''FileNotFoundError''))\<rparr>"

definition broken_skillet :: "panoply_args PanosSkillet" where
  "broken_skillet = new_PanosSkillet ''/skillets/example'' [0, 3] None"

definition blank_skillet :: "panoply_args PanosSkillet" where
  "blank_skillet = new_PanosSkillet ''/skillets/example'' [4, 6] None"

section \<open>Properties of the context initializer\<close>

lemmas initialize_context_unfold =
  initialize_context_def new_dict_def dict_update_def dict_get_def emit_def setitem_def Let_def

text \<open>The branch taken when the skillet already holds a capability.\<close>

lemma initialize_context_supplied:
  assumes "panoply self = Some p"
  shows "initialize_context env self w initial_context =
           (if connected env p
            then (case get_configuration env p of
                    Inl e \<Rightarrow>
                      (Inl e, self,
                       \<lparr>dicts = dicts w @ [dicts w ! initial_context],
                        trace = trace w @ [GetConfiguration]\<rparr>)
                  | Inr c \<Rightarrow>
                      (Inr (length (dicts w)), self,
                       \<lparr>dicts = dicts w @ [(dicts w ! initial_context)(''config'' \<mapsto> c)],
                        trace = trace w @ [GetConfiguration]\<rparr>))
            else (Inl (SkilletLoaderException
                    ''Could not get configuration as Panoply is not connected!''), self,
                  \<lparr>dicts = dicts w @ [dicts w ! initial_context], trace = trace w\<rparr>))"
  using assms by (simp add: initialize_context_unfold split: sum.splits)

text \<open>The three branches taken when the skillet holds no capability yet.\<close>

lemma initialize_context_neither:
  assumes "panoply self = None"
    and "\<not> issubset online_required_fields (dicts w ! initial_context)"
    and "\<not> issubset offline_required_fields (dicts w ! initial_context)"
  shows "initialize_context env self w initial_context =
           (Inl (SkilletValidationException
              ''Required fields for panos skillet not found in context!''), self,
            \<lparr>dicts = dicts w @ [dicts w ! initial_context], trace = trace w\<rparr>)"
  using assms by (simp add: initialize_context_unfold)

lemma initialize_context_online_mode:
  assumes "panoply self = None"
    and "issubset online_required_fields (dicts w ! initial_context)"
    and "args = Keywords (dict_get (dicts w ! initial_context) ''panos_hostname'' PyNone)
                  (dict_get (dicts w ! initial_context) ''panos_username'' PyNone)
                  (dict_get (dicts w ! initial_context) ''panos_password'' PyNone)
                  (dict_get (dicts w ! initial_context) ''panos_port'' (PyStr ''443''))"
  shows "initialize_context env self w initial_context =
           (case Panoply env args of
              Inl e \<Rightarrow>
                (Inl e, self,
                 \<lparr>dicts = dicts w @ [dicts w ! initial_context],
                  trace = trace w @ [PanoplyInit args]\<rparr>)
            | Inr p \<Rightarrow>
                (case get_configuration env p of
                   Inl e \<Rightarrow>
                     (Inl e, self\<lparr>panoply := Some p\<rparr>,
                      \<lparr>dicts = dicts w @ [dicts w ! initial_context],
                       trace = trace w @ [PanoplyInit args, GetConfiguration]\<rparr>)
                 | Inr c \<Rightarrow>
                     (Inr (length (dicts w)), self\<lparr>panoply := Some p\<rparr>,
                      \<lparr>dicts = dicts w @ [(dicts w ! initial_context)(''config'' \<mapsto> c)],
                       trace = trace w @ [PanoplyInit args, GetConfiguration]\<rparr>)))"
  using assms
  by (simp add: initialize_context_def new_dict_def dict_update_def emit_def setitem_def Let_def
           split: sum.splits)

lemma initialize_context_offline_mode:
  assumes "panoply self = None"
    and "\<not> issubset online_required_fields (dicts w ! initial_context)"
    and "issubset offline_required_fields (dicts w ! initial_context)"
  shows "initialize_context env self w initial_context =
           (case Panoply env NoArguments of
              Inl e \<Rightarrow>
                (Inl e, self,
                 \<lparr>dicts = dicts w @ [dicts w ! initial_context],
                  trace = trace w @ [LoggerInfo ''offline mode detected for skilletlib.skillet.panos'',
                                     PanoplyInit NoArguments]\<rparr>)
            | Inr p \<Rightarrow>
                (Inr (length (dicts w)), self\<lparr>panoply := Some p\<rparr>,
                 \<lparr>dicts = dicts w @ [dicts w ! initial_context],
                  trace = trace w @ [LoggerInfo ''offline mode detected for skilletlib.skillet.panos'',
                                     PanoplyInit NoArguments]\<rparr>))"
  using assms by (simp add: initialize_context_unfold split: sum.splits)

lemma issubset_online:
  "issubset online_required_fields d \<longleftrightarrow>
     d ''panos_hostname'' \<noteq> None \<and> d ''panos_username'' \<noteq> None \<and> d ''panos_password'' \<noteq> None"
  by (auto simp: issubset_def online_required_fields_def)

lemma issubset_offline: "issubset offline_required_fields d \<longleftrightarrow> d ''config'' \<noteq> None"
  by (simp add: issubset_def offline_required_fields_def)

text \<open>
  A call on a skillet that holds no capability, first of three cases. When the inputs
  carry the three online-required fields, the initializer works in online mode whether or
  not \<^verbatim>\<open>config\<close> is among the inputs: the first thing it does is construct a capability from the three fields and
  the port, which is \<^verbatim>\<open>'443'\<close> when the inputs have none; it returns exactly when the
  constructor and \<^verbatim>\<open>get_configuration()\<close> both succeed, and the context it returns holds
  under \<^verbatim>\<open>config\<close> what \<^verbatim>\<open>get_configuration()\<close> of the new capability answered. Nothing is
  assumed about \<^verbatim>\<open>config\<close> in the inputs.
\<close>

theorem initialize_context_online_priority:
  assumes "panoply self = None"
    and "(dicts w ! initial_context) ''panos_hostname'' = Some h"
    and "(dicts w ! initial_context) ''panos_username'' = Some u"
    and "(dicts w ! initial_context) ''panos_password'' = Some pw"
    and "args = Keywords h u pw
           (case (dicts w ! initial_context) ''panos_port'' of
              None \<Rightarrow> PyStr ''443'' | Some port \<Rightarrow> port)"
  shows "\<exists>r self' w' rest. initialize_context env self w initial_context = (r, self', w')
           \<and> trace w' = trace w @ PanoplyInit args # rest
           \<and> (\<forall>ctxt. r = Inr ctxt \<longrightarrow>
                 (\<exists>p c. Panoply env args = Inr p \<and> get_configuration env p = Inr c
                        \<and> panoply self' = Some p
                        \<and> (dicts w' ! ctxt) ''config'' = Some c))
           \<and> (\<forall>p c. Panoply env args = Inr p \<and> get_configuration env p = Inr c \<longrightarrow>
                 r = Inr (length (dicts w)))"
proof -
  have sub: "issubset online_required_fields (dicts w ! initial_context)"
    using assms(2-4) by (simp add: issubset_online)
  have args: "args = Keywords (dict_get (dicts w ! initial_context) ''panos_hostname'' PyNone)
                  (dict_get (dicts w ! initial_context) ''panos_username'' PyNone)
                  (dict_get (dicts w ! initial_context) ''panos_password'' PyNone)
                  (dict_get (dicts w ! initial_context) ''panos_port'' (PyStr ''443''))"
    using assms(2-5) by (simp add: dict_get_def)
  show ?thesis
    unfolding initialize_context_online_mode [OF assms(1) sub args]
    by (auto split: sum.splits)
qed

theorem initialize_context_online_priority_witness:
  "fst (initialize_context mock_panoply fresh_skillet online_inputs 0) = Inr 1
   \<and> (dicts (snd (snd (initialize_context mock_panoply fresh_skillet online_inputs 0))) ! 1)
        ''config'' = Some (PyStr ''<config/>'')
   \<and> (dicts online_inputs ! 0) ''config'' = Some (PyStr ''<old/>'')"
  using initialize_context_online_priority
    [of fresh_skillet online_inputs 0 "PyStr ''fw.local''" "PyStr ''admin''" "PyStr ''secret''"
        "Keywords (PyStr ''fw.local'') (PyStr ''admin'') (PyStr ''secret'') (PyStr ''443'')"
        mock_panoply]
  by (auto simp: fresh_skillet_def new_PanosSkillet_def online_inputs_def mock_panoply_def)

text \<open>
  Second case. When the skillet holds no capability and the inputs lack an online-required
  field but carry \<^verbatim>\<open>config\<close>, the initializer logs the offline mode and calls the constructor
  without arguments, and does nothing else outside the program: none of its events is a
  network call. When the constructor answers, the initializer returns a context equal to
  the inputs, so \<^verbatim>\<open>config\<close> keeps the supplied value, and stores the capability; it returns
  in no other case.
\<close>

theorem initialize_context_offline_keeps_config:
  assumes "panoply self = None"
    and "\<exists>k\<in>online_required_fields. (dicts w ! initial_context) k = None"
    and "(dicts w ! initial_context) ''config'' = Some v"
  shows "\<exists>r self' w'. initialize_context env self w initial_context = (r, self', w')
           \<and> trace w' = trace w @ [LoggerInfo ''offline mode detected for skilletlib.skillet.panos'',
                                    PanoplyInit NoArguments]
           \<and> (\<forall>e\<in>set (drop (length (trace w)) (trace w')). \<not> network_call e)
           \<and> (\<forall>p. Panoply env NoArguments = Inr p \<longrightarrow>
                 r = Inr (length (dicts w)) \<and> panoply self' = Some p
                 \<and> dicts w' ! length (dicts w) = dicts w ! initial_context
                 \<and> (dicts w' ! length (dicts w)) ''config'' = Some v)
           \<and> (\<forall>ctxt. r = Inr ctxt \<longrightarrow> (\<exists>p. Panoply env NoArguments = Inr p))"
proof -
  have no: "\<not> issubset online_required_fields (dicts w ! initial_context)"
    using assms(2) by (auto simp: issubset_def)
  have off: "issubset offline_required_fields (dicts w ! initial_context)"
    using assms(3) by (simp add: issubset_offline)
  show ?thesis
    unfolding initialize_context_offline_mode [OF assms(1) no off]
    using assms(3) by (auto split: sum.splits)
qed

theorem initialize_context_offline_keeps_config_witness:
  "fst (initialize_context mock_panoply fresh_skillet offline_inputs 0) = Inr 1
   \<and> (dicts (snd (snd (initialize_context mock_panoply fresh_skillet offline_inputs 0))) ! 1)
        ''config'' = Some (PyStr ''<config><x/></config>'')
   \<and> trace (snd (snd (initialize_context mock_panoply fresh_skillet offline_inputs 0))) =
        [LoggerInfo ''offline mode detected for skilletlib.skillet.panos'', PanoplyInit NoArguments]"
  using initialize_context_offline_keeps_config
    [of fresh_skillet offline_inputs 0 "PyStr ''<config><x/></config>''" mock_panoply]
  by (auto simp: fresh_skillet_def new_PanosSkillet_def offline_inputs_def mock_panoply_def
        online_required_fields_def)

text \<open>
  C3. When the skillet holds a capability that reports \<^verbatim>\<open>connected\<close> false, the initializer
  raises \<open>SkilletLoaderException\<close> whatever the inputs are; it emits no event, so it neither
  calls \<^verbatim>\<open>get_configuration()\<close> nor constructs an offline capability, and the skillet is
  as before.
\<close>

theorem initialize_context_disconnected_capability:
  assumes "panoply self = Some p" and "\<not> connected env p"
  shows "\<exists>w'. initialize_context env self w initial_context =
                (Inl (SkilletLoaderException
                   ''Could not get configuration as Panoply is not connected!''), self, w')
              \<and> trace w' = trace w"
  by (simp add: initialize_context_supplied [OF assms(1)] assms(2))

theorem initialize_context_disconnected_capability_witness:
  "fst (initialize_context mock_panoply injected_skillet offline_inputs 0) =
     Inl (SkilletLoaderException ''Could not get configuration as Panoply is not connected!'')
   \<and> trace (snd (snd (initialize_context mock_panoply injected_skillet offline_inputs 0))) = []"
  using initialize_context_disconnected_capability
    [of injected_skillet NoArguments mock_panoply offline_inputs 0]
  by (auto simp: injected_skillet_def new_PanosSkillet_def offline_inputs_def mock_panoply_def)

text \<open>
  Third case. When the skillet holds no capability and the inputs lack an online-required
  field and lack \<^verbatim>\<open>config\<close>, the initializer raises \<open>SkilletValidationException\<close>, which is not a
  \<open>SkilletLoaderException\<close>; it emits no event, so no capability was constructed and no
  network call made, and the skillet is as before.
\<close>

theorem initialize_context_missing_fields:
  assumes "panoply self = None"
    and "\<exists>k\<in>online_required_fields. (dicts w ! initial_context) k = None"
    and "(dicts w ! initial_context) ''config'' = None"
  shows "\<exists>w'. initialize_context env self w initial_context =
                (Inl (SkilletValidationException
                   ''Required fields for panos skillet not found in context!''), self, w')
              \<and> trace w' = trace w
              \<and> (\<forall>m. fst (initialize_context env self w initial_context)
                       \<noteq> Inl (SkilletLoaderException m))"
proof -
  have no: "\<not> issubset online_required_fields (dicts w ! initial_context)"
    using assms(2) by (auto simp: issubset_def)
  have off: "\<not> issubset offline_required_fields (dicts w ! initial_context)"
    using assms(3) by (simp add: issubset_offline)
  show ?thesis
    by (simp add: initialize_context_neither [OF assms(1) no off])
qed

theorem initialize_context_missing_fields_witness:
  "fst (initialize_context mock_panoply fresh_skillet incomplete_inputs 0) =
     Inl (SkilletValidationException ''Required fields for panos skillet not found in context!'')
   \<and> trace (snd (snd (initialize_context mock_panoply fresh_skillet incomplete_inputs 0))) = []
   \<and> fst (snd (initialize_context mock_panoply fresh_skillet incomplete_inputs 0)) = fresh_skillet"
  using initialize_context_missing_fields [of fresh_skillet incomplete_inputs 0 mock_panoply]
  by (auto simp: fresh_skillet_def new_PanosSkillet_def incomplete_inputs_def online_required_fields_def)

text \<open>
  What every branch of the initializer does to the store: it appends one dict, which
  holds the inputs, with \<^verbatim>\<open>config\<close> assigned or not, and returns no index but that of the
  appended dict.
\<close>

lemma initialize_context_store:
  "\<exists>r self' w' d. initialize_context env self w initial_context = (r, self', w')
     \<and> dicts w' = dicts w @ [d]
     \<and> (d = dicts w ! initial_context \<or> (\<exists>c. d = (dicts w ! initial_context)(''config'' \<mapsto> c)))
     \<and> (\<forall>ctxt. r = Inr ctxt \<longrightarrow> ctxt = length (dicts w))"
proof (cases "panoply self")
  case (Some p)
  show ?thesis
    unfolding initialize_context_supplied [OF Some]
    by (auto split: sum.splits)
next
  case None
  show ?thesis
  proof (cases "issubset online_required_fields (dicts w ! initial_context)")
    case True
    show ?thesis
      unfolding initialize_context_online_mode [OF None True refl]
      by (auto split: sum.splits)
  next
    case False
    show ?thesis
    proof (cases "issubset offline_required_fields (dicts w ! initial_context)")
      case True
      show ?thesis
        unfolding initialize_context_offline_mode [OF None False True]
        by (auto split: sum.splits)
    next
      case no_offline: False
      show ?thesis
        unfolding initialize_context_neither [OF None False no_offline]
        by simp
    qed
  qed
qed

text \<open>
  C9. Whatever the inputs and whether the initializer returns or raises, every dict that
  existed before the call, the caller's input mapping among them, is afterwards what it
  was. A returned context is a dict that did not exist before the call, and it holds the
  inputs, with at most the key \<^verbatim>\<open>config\<close> assigned on top of them.
\<close>

theorem initialize_context_copy_on_initialize:
  assumes "initial_context < length (dicts w)"
  shows "\<exists>r self' w'. initialize_context env self w initial_context = (r, self', w')
           \<and> take (length (dicts w)) (dicts w') = dicts w
           \<and> dicts w' ! initial_context = dicts w ! initial_context
           \<and> (\<forall>ctxt. r = Inr ctxt \<longrightarrow>
                 ctxt = length (dicts w) \<and> ctxt \<noteq> initial_context \<and> ctxt < length (dicts w')
                 \<and> (dicts w' ! ctxt = dicts w ! initial_context
                    \<or> (\<exists>c. dicts w' ! ctxt = (dicts w ! initial_context)(''config'' \<mapsto> c))))"
proof -
  obtain r self' w' d where
    run: "initialize_context env self w initial_context = (r, self', w')"
    and store: "dicts w' = dicts w @ [d]"
    and d: "d = dicts w ! initial_context \<or> (\<exists>c. d = (dicts w ! initial_context)(''config'' \<mapsto> c))"
    and idx: "\<forall>ctxt. r = Inr ctxt \<longrightarrow> ctxt = length (dicts w)"
    using initialize_context_store [of env self w initial_context] by blast
  have old: "take (length (dicts w)) (dicts w') = dicts w"
    by (simp add: store)
  have same: "dicts w' ! initial_context = dicts w ! initial_context"
    using assms by (simp add: store nth_append)
  have new: "dicts w' ! length (dicts w) = d"
    by (simp add: store)
  show ?thesis
    using run old same new d idx assms store by auto
qed

theorem initialize_context_copy_on_initialize_witness:
  "dicts (snd (snd (initialize_context mock_panoply fresh_skillet online_inputs 0))) ! 0 =
     dicts online_inputs ! 0
   \<and> fst (initialize_context mock_panoply fresh_skillet online_inputs 0) = Inr 1
   \<and> dicts (snd (snd (initialize_context mock_panoply fresh_skillet online_inputs 0))) ! 1 =
       (dicts online_inputs ! 0)(''config'' \<mapsto> PyStr ''<config/>'')"
proof -
  have run: "initialize_context mock_panoply fresh_skillet online_inputs 0 =
      (Inr 1, fresh_skillet\<lparr>panoply := Some (Keywords (PyStr ''fw.local'') (PyStr ''admin'')
                 (PyStr ''secret'') (PyStr ''443''))\<rparr>,
       \<lparr>dicts = dicts online_inputs @ [(dicts online_inputs ! 0)(''config'' \<mapsto> PyStr ''<config/>'')],
        trace = [PanoplyInit (Keywords (PyStr ''fw.local'') (PyStr ''admin'')
                 (PyStr ''secret'') (PyStr ''443'')), GetConfiguration]\<rparr>)"
    by (simp add: initialize_context_unfold fresh_skillet_def new_PanosSkillet_def online_inputs_def mock_panoply_def
          issubset_online)
  show ?thesis
    using initialize_context_copy_on_initialize [of 0 online_inputs mock_panoply fresh_skillet]
    by (simp add: run) (simp add: online_inputs_def)
qed



section \<open>Later calls on a skillet built without a capability\<close>

text \<open>
  The first call on a skillet built without a capability, with \<^verbatim>\<open>config\<close> as the only input:
  it returns in offline mode and leaves the handle it built on the skillet.
\<close>

lemma after_offline_call_eq:
  "after_offline_call =
     (Inr 3, fresh_skillet\<lparr>panoply := Some NoArguments\<rparr>,
      \<lparr>dicts = dicts session_inputs @ [dicts session_inputs ! 0],
       trace = [LoggerInfo ''offline mode detected for skilletlib.skillet.panos'',
                PanoplyInit NoArguments]\<rparr>)"
proof -
  have none: "panoply fresh_skillet = None"
    by (simp add: fresh_skillet_def new_PanosSkillet_def)
  have no: "\<not> issubset online_required_fields (dicts session_inputs ! 0)"
    by (simp add: issubset_online session_inputs_def)
  have off: "issubset offline_required_fields (dicts session_inputs ! 0)"
    by (simp add: issubset_offline session_inputs_def)
  show ?thesis
    unfolding after_offline_call_def initialize_context_offline_mode [OF none no off]
    by (simp add: mock_panoply_def session_inputs_def)
qed

lemma after_offline_call_held:
  "panoply (fst (snd after_offline_call)) = Some NoArguments"
  "\<not> connected mock_panoply NoArguments"
  by (simp_all add: after_offline_call_eq mock_panoply_def)

text \<open>
  C1. The source decides by whether the skillet holds a capability now, not by whether one
  was handed to it. On a skillet built without a capability, after a first call that
  returned in offline mode, a call whose inputs carry \<^verbatim>\<open>panos_hostname\<close>, \<^verbatim>\<open>panos_username\<close> and
  \<^verbatim>\<open>panos_password\<close> does not work in online mode: it raises \<open>SkilletLoaderException\<close>,
  constructs no capability and asks for no configuration, and the skillet keeps the offline
  handle.
\<close>

theorem initialize_context_online_after_offline_call:
  "panoply fresh_skillet = None
   \<and> fst after_offline_call = Inr 3
   \<and> (dicts (snd (snd after_offline_call)) ! 1) ''panos_hostname'' = Some (PyStr ''fw.local'')
   \<and> (dicts (snd (snd after_offline_call)) ! 1) ''panos_username'' = Some (PyStr ''admin'')
   \<and> (dicts (snd (snd after_offline_call)) ! 1) ''panos_password'' = Some (PyStr ''secret'')
   \<and> fst (initialize_context mock_panoply (fst (snd after_offline_call))
            (snd (snd after_offline_call)) 1) =
       Inl (SkilletLoaderException ''Could not get configuration as Panoply is not connected!'')
   \<and> fst (snd (initialize_context mock_panoply (fst (snd after_offline_call))
            (snd (snd after_offline_call)) 1)) = fst (snd after_offline_call)
   \<and> trace (snd (snd (initialize_context mock_panoply (fst (snd after_offline_call))
            (snd (snd after_offline_call)) 1))) = trace (snd (snd after_offline_call))"
proof -
  have inputs: "(dicts (snd (snd after_offline_call)) ! 1) ''panos_hostname'' = Some (PyStr ''fw.local'')"
    "(dicts (snd (snd after_offline_call)) ! 1) ''panos_username'' = Some (PyStr ''admin'')"
    "(dicts (snd (snd after_offline_call)) ! 1) ''panos_password'' = Some (PyStr ''secret'')"
    by (simp_all add: after_offline_call_eq session_inputs_def)
  have first: "panoply fresh_skillet = None" "fst after_offline_call = Inr 3"
    by (simp_all add: after_offline_call_eq fresh_skillet_def new_PanosSkillet_def)
  show ?thesis
    using inputs first
    by (simp add: initialize_context_supplied [OF after_offline_call_held(1)]
          after_offline_call_held(2))
qed

text \<open>
  C2. On a skillet built without a capability, after a first call that returned in offline
  mode, a second call with the same inputs, which lack the online-required fields and carry
  \<^verbatim>\<open>config\<close>, does not work in offline mode again: it raises \<open>SkilletLoaderException\<close>, returns
  no context and constructs no capability.
\<close>

theorem initialize_context_offline_after_offline_call:
  "panoply fresh_skillet = None
   \<and> fst after_offline_call = Inr 3
   \<and> (dicts (snd (snd after_offline_call)) ! 0) ''panos_hostname'' = None
   \<and> (dicts (snd (snd after_offline_call)) ! 0) ''config'' = Some (PyStr ''<config><x/></config>'')
   \<and> fst (initialize_context mock_panoply (fst (snd after_offline_call))
            (snd (snd after_offline_call)) 0) =
       Inl (SkilletLoaderException ''Could not get configuration as Panoply is not connected!'')
   \<and> trace (snd (snd (initialize_context mock_panoply (fst (snd after_offline_call))
            (snd (snd after_offline_call)) 0))) = trace (snd (snd after_offline_call))"
proof -
  have inputs: "(dicts (snd (snd after_offline_call)) ! 0) ''panos_hostname'' = None"
    "(dicts (snd (snd after_offline_call)) ! 0) ''config'' = Some (PyStr ''<config><x/></config>'')"
    by (simp_all add: after_offline_call_eq session_inputs_def)
  have first: "panoply fresh_skillet = None" "fst after_offline_call = Inr 3"
    by (simp_all add: after_offline_call_eq fresh_skillet_def new_PanosSkillet_def)
  show ?thesis
    using inputs first
    by (simp add: initialize_context_supplied [OF after_offline_call_held(1)]
          after_offline_call_held(2))
qed

text \<open>
  C4. On a skillet built without a capability, after a first call that returned in offline
  mode, a call whose inputs lack an online-required field and lack \<^verbatim>\<open>config\<close> does not raise
  \<open>SkilletValidationException\<close>: the required fields are not looked at, and what it raises
  is \<open>SkilletLoaderException\<close>.
\<close>

theorem initialize_context_missing_after_offline_call:
  "panoply fresh_skillet = None
   \<and> fst after_offline_call = Inr 3
   \<and> (dicts (snd (snd after_offline_call)) ! 2) ''panos_username'' = None
   \<and> (dicts (snd (snd after_offline_call)) ! 2) ''config'' = None
   \<and> fst (initialize_context mock_panoply (fst (snd after_offline_call))
            (snd (snd after_offline_call)) 2) =
       Inl (SkilletLoaderException ''Could not get configuration as Panoply is not connected!'')
   \<and> fst (initialize_context mock_panoply (fst (snd after_offline_call))
            (snd (snd after_offline_call)) 2) \<noteq>
       Inl (SkilletValidationException ''Required fields for panos skillet not found in context!'')"
proof -
  have inputs: "(dicts (snd (snd after_offline_call)) ! 2) ''panos_username'' = None"
    "(dicts (snd (snd after_offline_call)) ! 2) ''config'' = None"
    by (simp_all add: after_offline_call_eq session_inputs_def)
  have first: "panoply fresh_skillet = None" "fst after_offline_call = Inr 3"
    by (simp_all add: after_offline_call_eq fresh_skillet_def new_PanosSkillet_def)
  show ?thesis
    using inputs first
    by (simp add: initialize_context_supplied [OF after_offline_call_held(1)]
          after_offline_call_held(2))
qed

section \<open>Properties of the content resolver\<close>

lemmas load_element_unfold = load_element_def setitem_def emit_def Let_def

text \<open>Every outcome of the resolver: nothing changed, or one record was logged, or the text
  of the file was assigned.\<close>

lemma load_element_world:
  assumes "load_element fs w snippet_def snippet_path = (r, w')"
  shows "(w' = w \<and> (isl r \<or> (r = Inr snippet_def \<and> \<not> element_missing (dicts w ! snippet_def))))
         \<or> (\<exists>n. r = Inr snippet_def \<and> (dicts w ! snippet_def) ''name'' = Some n
                \<and> w' = emit (LoggerError
                           (''Could not load the referenced file for '' @ py_str n)) w)
         \<or> (\<exists>fname p content. r = Inr snippet_def
                \<and> element_missing (dicts w ! snippet_def)
                \<and> (dicts w ! snippet_def) ''file'' = Some (PyStr fname)
                \<and> joinpath_resolve fs snippet_path fname = Inr p
                \<and> path_exists fs p = Inr True \<and> open_read fs p = Inr content
                \<and> w' = setitem snippet_def ''element'' (PyStr content) w)"
proof (cases "element_missing (dicts w ! snippet_def)")
  case False
  then show ?thesis
    using assms by (auto simp: load_element_def element_missing_def)
next
  case True
  then have test: "(dicts w ! snippet_def) ''element'' = None
      \<or> (dicts w ! snippet_def) ''element'' = Some (PyStr [])"
    by (simp add: element_missing_def)
  show ?thesis
  proof (cases "(dicts w ! snippet_def) ''file''")
    case None
    then show ?thesis
      using assms test by (auto simp: load_element_def split: option.splits)
  next
    case (Some f)
    show ?thesis
    proof (cases f)
      case (PyStr fname)
      show ?thesis
      proof (cases "joinpath_resolve fs snippet_path fname")
        case (Inl x)
        then show ?thesis
          using assms test Some PyStr by (auto simp: load_element_def)
      next
        case (Inr p)
        show ?thesis
        proof (cases "path_exists fs p")
          case (Inl x)
          then show ?thesis
            using assms test Some PyStr Inr by (auto simp: load_element_def)
        next
          case probed: (Inr there)
          show ?thesis
          proof (cases there)
            case True
            then show ?thesis
              using assms test Some PyStr Inr probed \<open>element_missing (dicts w ! snippet_def)\<close>
              by (cases "open_read fs p") (auto simp: load_element_def)
          next
            case False
            then show ?thesis
              using assms test Some PyStr Inr probed
              by (cases "(dicts w ! snippet_def) ''name''") (auto simp: load_element_def)
          qed
        qed
      qed
    qed (use assms test Some in \<open>auto simp: load_element_def\<close>)
  qed
qed

text \<open>
  C6, as the code has it. Read with a null \<^verbatim>\<open>element\<close> counted as absent or empty, the claim
  fails on a named definition whose \<^verbatim>\<open>element\<close> is \<^verbatim>\<open>None\<close> and which has no \<^verbatim>\<open>file\<close> key: the
  test of the resolver is for a missing key or the empty string only, so it returns the
  definition as it is and raises nothing.
\<close>

theorem load_element_null_element_counterexample:
  "(dicts snippet_store ! 6) ''name'' = Some (PyStr ''nulled'')
   \<and> (dicts snippet_store ! 6) ''element'' = Some PyNone
   \<and> (dicts snippet_store ! 6) ''file'' = None
   \<and> load_element example_fs snippet_store 6 ''/skillets/example'' = (Inr 6, snippet_store)"
  by (simp add: snippet_store_def load_element_def)

text \<open>
  C6, amended. For a definition with a name whose \<^verbatim>\<open>element\<close> key is absent or whose
  \<^verbatim>\<open>element\<close> is the empty string, the resolver raises \<open>SkilletLoaderException\<close> exactly when
  there is no \<^verbatim>\<open>file\<close> key, and the message then ends with the name. When \<^verbatim>\<open>file\<close> is a
  string, its path resolves and \<^verbatim>\<open>exists()\<close> answers that nothing is there, the resolver
  returns the same dict and no dict has changed, so \<^verbatim>\<open>element\<close> is as absent or empty as
  before; the only effect is one error record in the log. When \<^verbatim>\<open>resolve()\<close> or \<^verbatim>\<open>exists()\<close>
  raises instead, that exception is passed on and nothing has changed.
\<close>

theorem load_element_hard_and_soft_failure:
  assumes "(dicts w ! snippet_def) ''name'' = Some n"
    and "element_missing (dicts w ! snippet_def)"
  shows "((\<exists>m. fst (load_element fs w snippet_def snippet_path) = Inl (SkilletLoaderException m))
            \<longleftrightarrow> (dicts w ! snippet_def) ''file'' = None)
         \<and> ((dicts w ! snippet_def) ''file'' = None \<longrightarrow>
              load_element fs w snippet_def snippet_path =
                (Inl (SkilletLoaderException
                   (''YAMLError: Could not parse metadata file for snippet '' @ py_str n)), w))
         \<and> (\<forall>file snippet_file. (dicts w ! snippet_def) ''file'' = Some (PyStr file)
                \<and> joinpath_resolve fs snippet_path file = Inr snippet_file
                \<and> path_exists fs snippet_file = Inr False \<longrightarrow>
              (\<exists>w'. load_element fs w snippet_def snippet_path = (Inr snippet_def, w')
                 \<and> dicts w' = dicts w
                 \<and> element_missing (dicts w' ! snippet_def)
                 \<and> trace w' = trace w @
                     [LoggerError (''Could not load the referenced file for '' @ py_str n)]))
         \<and> (\<forall>file x. (dicts w ! snippet_def) ''file'' = Some (PyStr file)
                \<and> joinpath_resolve fs snippet_path file = Inl x \<longrightarrow>
              load_element fs w snippet_def snippet_path = (Inl (LibraryError x), w))
         \<and> (\<forall>file snippet_file x. (dicts w ! snippet_def) ''file'' = Some (PyStr file)
                \<and> joinpath_resolve fs snippet_path file = Inr snippet_file
                \<and> path_exists fs snippet_file = Inl x \<longrightarrow>
              load_element fs w snippet_def snippet_path = (Inl (LibraryError x), w))"
proof -
  let ?d = "dicts w ! snippet_def"
  have test: "?d ''element'' = None \<or> ?d ''element'' = Some (PyStr [])"
    using assms(2) by (simp add: element_missing_def)
  have hard: "load_element fs w snippet_def snippet_path =
      (Inl (SkilletLoaderException
         (''YAMLError: Could not parse metadata file for snippet '' @ py_str n)), w)"
    if "?d ''file'' = None"
    using that test assms(1) by (auto simp: load_element_def)
  have no_loader: "fst (load_element fs w snippet_def snippet_path) \<noteq> Inl (SkilletLoaderException m)"
    if "?d ''file'' = Some f" for f m
    using that test assms(1)
    by (auto simp: load_element_unfold split: pyval.splits sum.splits bool.splits)
  have iff: "(\<exists>m. fst (load_element fs w snippet_def snippet_path) = Inl (SkilletLoaderException m))
      \<longleftrightarrow> ?d ''file'' = None"
  proof (cases "?d ''file''")
    case None
    then show ?thesis using hard by simp
  next
    case (Some f)
    then show ?thesis using no_loader by simp
  qed
  have soft: "\<exists>w'. load_element fs w snippet_def snippet_path = (Inr snippet_def, w')
      \<and> dicts w' = dicts w \<and> element_missing (dicts w' ! snippet_def)
      \<and> trace w' = trace w @ [LoggerError (''Could not load the referenced file for '' @ py_str n)]"
    if "?d ''file'' = Some (PyStr fname)" "joinpath_resolve fs snippet_path fname = Inr snippet_file"
      "path_exists fs snippet_file = Inr False" for fname snippet_file
    using that test assms by (auto simp: load_element_unfold)
  have unresolved: "load_element fs w snippet_def snippet_path = (Inl (LibraryError x), w)"
    if "?d ''file'' = Some (PyStr fname)" "joinpath_resolve fs snippet_path fname = Inl x" for fname x
    using that test by (auto simp: load_element_unfold)
  have unprobed: "load_element fs w snippet_def snippet_path = (Inl (LibraryError x), w)"
    if "?d ''file'' = Some (PyStr fname)" "joinpath_resolve fs snippet_path fname = Inr snippet_file"
      "path_exists fs snippet_file = Inl x" for fname snippet_file x
    using that test by (auto simp: load_element_unfold)
  show ?thesis
    using iff hard soft unresolved unprobed by blast
qed

theorem load_element_hard_and_soft_failure_witness:
  "fst (load_element example_fs snippet_store 3 ''/skillets/example'') =
     Inl (SkilletLoaderException ''YAMLError: Could not parse metadata file for snippet broken'')
   \<and> fst (load_element example_fs snippet_store 1 ''/skillets/example'') = Inr 1
   \<and> dicts (snd (load_element example_fs snippet_store 1 ''/skillets/example'')) =
       dicts snippet_store
   \<and> trace (snd (load_element example_fs snippet_store 1 ''/skillets/example'')) =
       [LoggerError ''Could not load the referenced file for missing'']"
proof -
  have hard: "(dicts snippet_store ! 3) ''name'' = Some (PyStr ''broken'')"
    "element_missing (dicts snippet_store ! 3)" "(dicts snippet_store ! 3) ''file'' = None"
    by (simp_all add: snippet_store_def element_missing_def)
  have soft: "(dicts snippet_store ! 1) ''name'' = Some (PyStr ''missing'')"
    "element_missing (dicts snippet_store ! 1)"
    "(dicts snippet_store ! 1) ''file'' = Some (PyStr ''missing.xml'')"
    "joinpath_resolve example_fs ''/skillets/example'' ''missing.xml'' =
       Inr ''/skillets/example/missing.xml''"
    "path_exists example_fs ''/skillets/example/missing.xml'' = Inr False"
    "trace snippet_store = []"
    by (simp_all add: snippet_store_def element_missing_def example_fs_def)
  show ?thesis
    using load_element_hard_and_soft_failure [OF hard(1,2), of example_fs "''/skillets/example''"]
      load_element_hard_and_soft_failure [OF soft(1,2), of example_fs "''/skillets/example''"]
      hard(3) soft(3,4,5,6)
    by auto
qed

text \<open>
  C8. For a definition whose \<^verbatim>\<open>element\<close> is present and is not the empty string, the resolver
  returns the same dict and changes nothing, whatever the \<^verbatim>\<open>file\<close> key and the file system
  are; so running it again gives the same again.
\<close>

theorem load_element_inline_noop:
  assumes "\<not> element_missing (dicts w ! snippet_def)"
  shows "load_element fs w snippet_def snippet_path = (Inr snippet_def, w)
         \<and> load_element fs (snd (load_element fs w snippet_def snippet_path)) snippet_def snippet_path
             = load_element fs w snippet_def snippet_path"
proof -
  have once: "load_element fs w snippet_def snippet_path = (Inr snippet_def, w)"
    using assms by (auto simp: load_element_def element_missing_def)
  then show ?thesis
    by simp
qed

theorem load_element_inline_noop_witness:
  "load_element example_fs snippet_store 0 ''/skillets/example'' = (Inr 0, snippet_store)"
proof -
  have "\<not> element_missing (dicts snippet_store ! 0)"
    by (simp add: snippet_store_def element_missing_def)
  from load_element_inline_noop [OF this] show ?thesis
    by simp
qed

text \<open>A returned definition is the dict that was passed in.\<close>

lemma load_element_same_dict:
  "load_element fs w snippet_def snippet_path = (Inr snippet_def', w') \<Longrightarrow> snippet_def' = snippet_def"
  using load_element_world [of fs w snippet_def snippet_path "Inr snippet_def'" w'] by auto

text \<open>What the resolver leaves alone, whether it returns or raises.\<close>

lemma load_element_frame:
  assumes "load_element fs w snippet_def snippet_path = (r, w')"
  shows "length (dicts w') = length (dicts w)"
    and "b \<noteq> snippet_def \<Longrightarrow> dicts w' ! b = dicts w ! b"
    and "k \<noteq> ''element'' \<Longrightarrow> (dicts w' ! b) k = (dicts w ! b) k"
    and "\<exists>tr. trace w' = trace w @ tr"
proof -
  have w': "w' = w \<or> (\<exists>m. w' = emit (LoggerError m) w)
      \<or> (\<exists>content. w' = setitem snippet_def ''element'' (PyStr content) w)"
    using load_element_world [OF assms] by blast
  show "length (dicts w') = length (dicts w)"
    using w' by (auto simp: emit_def setitem_def)
  show "b \<noteq> snippet_def \<Longrightarrow> dicts w' ! b = dicts w ! b"
    using w' by (auto simp: emit_def setitem_def)
  show "\<exists>tr. trace w' = trace w @ tr"
    using w' by (auto simp: emit_def setitem_def)
  show "k \<noteq> ''element'' \<Longrightarrow> (dicts w' ! b) k = (dicts w ! b) k"
  proof (cases "b = snippet_def \<and> snippet_def < length (dicts w)")
    case True
    assume "k \<noteq> ''element''"
    then show ?thesis
      using w' True by (auto simp: emit_def setitem_def)
  next
    case False
    then show ?thesis
      using w' by (cases "b = snippet_def") (auto simp: emit_def setitem_def list_update_beyond)
  qed
qed

lemma load_element_keeps_content:
  assumes "load_element fs w snippet_def snippet_path = (r, w')"
    and "\<not> element_missing (dicts w ! b)"
  shows "dicts w' ! b = dicts w ! b"
proof (cases "b = snippet_def")
  case True
  then have "load_element fs w snippet_def snippet_path = (Inr snippet_def, w)"
    using assms(2) by (auto simp: load_element_def element_missing_def)
  then show ?thesis
    using assms(1) by simp
next
  case False
  then show ?thesis
    by (rule load_element_frame(2) [OF assms(1)])
qed

text \<open>
  The dict the resolver was run on is afterwards what it was, unless the text of a file
  was assigned to its \<^verbatim>\<open>element\<close>.
\<close>

lemma load_element_dict:
  assumes "load_element fs w snippet_def snippet_path = (r, w')"
  shows "dicts w' ! snippet_def = dicts w ! snippet_def
         \<or> (\<exists>fname p content. element_missing (dicts w ! snippet_def)
                \<and> (dicts w ! snippet_def) ''file'' = Some (PyStr fname)
                \<and> joinpath_resolve fs snippet_path fname = Inr p
                \<and> path_exists fs p = Inr True \<and> open_read fs p = Inr content
                \<and> dicts w' ! snippet_def = (dicts w ! snippet_def)(''element'' \<mapsto> PyStr content))"
proof (cases "snippet_def < length (dicts w)")
  case True
  then show ?thesis
    using load_element_world [OF assms] by (auto simp: emit_def setitem_def)
next
  case False
  then have "(dicts w)[snippet_def := x] = dicts w" for x
    by (simp add: list_update_beyond)
  then show ?thesis
    using load_element_world [OF assms] by (auto simp: emit_def setitem_def)
qed

text \<open>Whether the resolver raises depends on the contents of the dict alone.\<close>

lemma load_element_raises_iff:
  "isl (fst (load_element fs w snippet_def snippet_path)) =
     load_element_raises fs snippet_path (dicts w ! snippet_def)"
  by (auto simp: load_element_raises_def load_element_def Let_def
         split: option.splits pyval.splits sum.splits bool.splits)

text \<open>A dict on which the resolver does not raise stays one, whatever the resolver loads.\<close>

lemma load_element_raises_stable:
  assumes "load_element fs w snippet_def snippet_path = (r, w')"
    and "\<not> load_element_raises fs snippet_path (dicts w ! b)"
  shows "\<not> load_element_raises fs snippet_path (dicts w' ! b)"
proof (cases "b = snippet_def")
  case False
  then have "dicts w' ! b = dicts w ! b"
    by (rule load_element_frame(2) [OF assms(1)])
  then show ?thesis
    using assms(2) by simp
next
  case True
  from load_element_dict [OF assms(1)] show ?thesis
  proof
    assume "dicts w' ! snippet_def = dicts w ! snippet_def"
    then show ?thesis
      using assms(2) True by simp
  next
    assume "\<exists>fname p content. element_missing (dicts w ! snippet_def)
        \<and> (dicts w ! snippet_def) ''file'' = Some (PyStr fname)
        \<and> joinpath_resolve fs snippet_path fname = Inr p
        \<and> path_exists fs p = Inr True \<and> open_read fs p = Inr content
        \<and> dicts w' ! snippet_def = (dicts w ! snippet_def)(''element'' \<mapsto> PyStr content)"
    then show ?thesis
      using True by (auto simp: load_element_raises_def load_element_unfold)
  qed
qed

section \<open>Properties of the stack materializer\<close>

text \<open>One turn of the loop: the definition is passed through, or the resolver raises, or
  the resolver returns and the loop goes on in the store the resolver left.\<close>

lemma get_snippets_loop_Cons:
  assumes "get_snippets_loop fs self snippet_path (a # rest) w acc = (r, w')"
  obtains
    (pass) "\<not> resolved_by_get_snippets (dicts w ! a)"
      "get_snippets_loop fs self snippet_path rest w (acc @ [PanosSnippet a (panoply self)]) = (r, w')"
  | (raise) e where "resolved_by_get_snippets (dicts w ! a)"
      "load_element fs w a snippet_path = (Inl e, w')" "r = Inl e"
  | (load) w1 where "resolved_by_get_snippets (dicts w ! a)"
      "load_element fs w a snippet_path = (Inr a, w1)"
      "get_snippets_loop fs self snippet_path rest w1 (acc @ [PanosSnippet a (panoply self)]) = (r, w')"
proof (cases "resolved_by_get_snippets (dicts w ! a)")
  case False
  then show ?thesis
    using assms pass by (auto simp: resolved_by_get_snippets_def)
next
  case True
  obtain r1 w1 where l: "load_element fs w a snippet_path = (r1, w1)"
    by (cases "load_element fs w a snippet_path")
  show ?thesis
  proof (cases r1)
    case (Inl e)
    then show ?thesis
      using assms True l raise by (auto simp: resolved_by_get_snippets_def)
  next
    case (Inr a')
    then have "a' = a"
      using l load_element_same_dict by blast
    then show ?thesis
      using assms True l Inr load by (auto simp: resolved_by_get_snippets_def)
  qed
qed

lemma get_snippets_loop_result:
  "get_snippets_loop fs self snippet_path stack w acc = (Inr xs, w') \<Longrightarrow>
     xs = acc @ map (\<lambda>a. PanosSnippet a (panoply self)) stack"
proof (induction stack arbitrary: w acc)
  case Nil
  then show ?case by simp
next
  case (Cons a rest)
  from Cons.prems show ?case
  proof (cases rule: get_snippets_loop_Cons)
    case pass
    then show ?thesis using Cons.IH by fastforce
  next
    case (raise e)
    then show ?thesis by simp
  next
    case (load w1)
    then show ?thesis using Cons.IH by fastforce
  qed
qed

lemma get_snippets_loop_frame:
  "get_snippets_loop fs self snippet_path stack w acc = (r, w') \<Longrightarrow>
     length (dicts w') = length (dicts w)
     \<and> (\<forall>b k. k \<noteq> ''element'' \<longrightarrow> (dicts w' ! b) k = (dicts w ! b) k)
     \<and> (\<forall>b. \<not> element_missing (dicts w ! b) \<longrightarrow> dicts w' ! b = dicts w ! b)
     \<and> (\<exists>tr. trace w' = trace w @ tr)"
proof (induction stack arbitrary: w acc)
  case Nil
  then show ?case by simp
next
  case (Cons a rest)
  from Cons.prems show ?case
  proof (cases rule: get_snippets_loop_Cons)
    case pass
    then show ?thesis using Cons.IH by blast
  next
    case (raise e)
    show ?thesis
      using load_element_frame [OF raise(2)] load_element_keeps_content [OF raise(2)]
      by simp
  next
    case (load w1)
    have step: "length (dicts w1) = length (dicts w)"
      "\<And>b k. k \<noteq> ''element'' \<Longrightarrow> (dicts w1 ! b) k = (dicts w ! b) k"
      "\<And>b. \<not> element_missing (dicts w ! b) \<Longrightarrow> dicts w1 ! b = dicts w ! b"
      "\<exists>tr. trace w1 = trace w @ tr"
      using load_element_frame [OF load(2)] load_element_keeps_content [OF load(2)]
      by simp_all
    have rest: "length (dicts w') = length (dicts w1)"
      "\<And>b k. k \<noteq> ''element'' \<Longrightarrow> (dicts w' ! b) k = (dicts w1 ! b) k"
      "\<And>b. \<not> element_missing (dicts w1 ! b) \<Longrightarrow> dicts w' ! b = dicts w1 ! b"
      "\<exists>tr. trace w' = trace w1 @ tr"
      using Cons.IH [OF load(3)] by simp_all
    have "\<exists>tr. trace w' = trace w @ tr"
      using step(4) rest(4) by auto
    moreover have "dicts w' ! b = dicts w ! b" if "\<not> element_missing (dicts w ! b)" for b
      using that step(3) [OF that] rest(3) [of b] by simp
    ultimately show ?thesis
      using step(1,2) rest(1,2) by simp
  qed
qed

text \<open>A definition with another \<^verbatim>\<open>cmd\<close> than \<^verbatim>\<open>set\<close> is never handed to the resolver.\<close>

lemma get_snippets_loop_untouched:
  "get_snippets_loop fs self snippet_path stack w acc = (r, w') \<Longrightarrow>
     \<not> resolved_by_get_snippets (dicts w ! b) \<Longrightarrow> dicts w' ! b = dicts w ! b"
proof (induction stack arbitrary: w acc)
  case Nil
  then show ?case by simp
next
  case (Cons a rest)
  from Cons.prems(1) show ?case
  proof (cases rule: get_snippets_loop_Cons)
    case pass
    then show ?thesis using Cons.IH Cons.prems(2) by blast
  next
    case (raise e)
    have "b \<noteq> a"
      using raise(1) Cons.prems(2) by auto
    then show ?thesis
      by (rule load_element_frame(2) [OF raise(2)])
  next
    case (load w1)
    have "b \<noteq> a"
      using load(1) Cons.prems(2) by auto
    then have same: "dicts w1 ! b = dicts w ! b"
      by (rule load_element_frame(2) [OF load(2)])
    then have "\<not> resolved_by_get_snippets (dicts w1 ! b)"
      using Cons.prems(2) by simp
    from Cons.IH [OF load(3) this] same show ?thesis
      by simp
  qed
qed

text \<open>The loop returns when the resolver raises on none of the definitions it is run on.\<close>

lemma get_snippets_loop_returns:
  "\<forall>a\<in>set stack. resolved_by_get_snippets (dicts w ! a) \<longrightarrow>
       \<not> load_element_raises fs snippet_path (dicts w ! a) \<Longrightarrow>
     \<exists>xs w'. get_snippets_loop fs self snippet_path stack w acc = (Inr xs, w')"
proof (induction stack arbitrary: w acc)
  case Nil
  then show ?case by simp
next
  case (Cons a rest)
  show ?case
  proof (cases "resolved_by_get_snippets (dicts w ! a)")
    case False
    have "\<exists>xs w'. get_snippets_loop fs self snippet_path rest w
        (acc @ [PanosSnippet a (panoply self)]) = (Inr xs, w')"
      using Cons.prems by (intro Cons.IH) simp
    then show ?thesis
      using False by (auto simp: resolved_by_get_snippets_def)
  next
    case True
    obtain r1 w1 where l: "load_element fs w a snippet_path = (r1, w1)"
      by (cases "load_element fs w a snippet_path")
    have "\<not> load_element_raises fs snippet_path (dicts w ! a)"
      using Cons.prems True by simp
    then have "\<not> isl r1"
      using load_element_raises_iff [of fs w a snippet_path] l by simp
    then obtain a' where r1: "r1 = Inr a'"
      by (cases r1) auto
    have cmd: "resolved_by_get_snippets (dicts w1 ! b) = resolved_by_get_snippets (dicts w ! b)" for b
      using load_element_frame(3) [OF l, of "''cmd''" b]
      by (simp add: resolved_by_get_snippets_def)
    have "\<forall>b\<in>set rest. resolved_by_get_snippets (dicts w1 ! b) \<longrightarrow>
        \<not> load_element_raises fs snippet_path (dicts w1 ! b)"
      using Cons.prems cmd load_element_raises_stable [OF l] by auto
    then have "\<exists>xs w'. get_snippets_loop fs self snippet_path rest w1
        (acc @ [PanosSnippet a' (panoply self)]) = (Inr xs, w')"
      by (rule Cons.IH)
    then show ?thesis
      using True l r1 by (simp add: resolved_by_get_snippets_def)
  qed
qed

text \<open>The loop raises when the resolver raises on a definition it is run on.\<close>

lemma get_snippets_loop_raises:
  "a \<in> set stack \<Longrightarrow> resolved_by_get_snippets (dicts w ! a) \<Longrightarrow>
     load_element_raises fs snippet_path (dicts w ! a) \<Longrightarrow>
     \<exists>e w'. get_snippets_loop fs self snippet_path stack w acc = (Inl e, w')"
proof (induction stack arbitrary: w acc)
  case Nil
  then show ?case by simp
next
  case (Cons b rest)
  show ?case
  proof (cases "resolved_by_get_snippets (dicts w ! b)")
    case False
    then have "a \<noteq> b"
      using Cons.prems(2) by auto
    then have "a \<in> set rest"
      using Cons.prems(1) by simp
    from Cons.IH [OF this Cons.prems(2,3)]
    have "\<exists>e w'. get_snippets_loop fs self snippet_path rest w
        (acc @ [PanosSnippet b (panoply self)]) = (Inl e, w')" .
    then show ?thesis
      using False by (auto simp: resolved_by_get_snippets_def)
  next
    case True
    obtain r1 w1 where l: "load_element fs w b snippet_path = (r1, w1)"
      by (cases "load_element fs w b snippet_path")
    show ?thesis
    proof (cases r1)
      case (Inl e)
      then show ?thesis
        using True l by (auto simp: resolved_by_get_snippets_def)
    next
      case (Inr b')
      then have "\<not> load_element_raises fs snippet_path (dicts w ! b)"
        using load_element_raises_iff [of fs w b snippet_path] l by simp
      then have "a \<noteq> b"
        using Cons.prems(3) by auto
      then have in_rest: "a \<in> set rest" and same: "dicts w1 ! a = dicts w ! a"
        using Cons.prems(1) load_element_frame(2) [OF l] by auto
      have "\<exists>e w'. get_snippets_loop fs self snippet_path rest w1
          (acc @ [PanosSnippet b' (panoply self)]) = (Inl e, w')"
        using Cons.IH [OF in_rest] Cons.prems(2,3) same by simp
      then show ?thesis
        using True l Inr by (auto simp: resolved_by_get_snippets_def)
    qed
  qed
qed

text \<open>
  C5, as the code has it. The claim that every stack yields its snippets fails on a stack
  with a definition that has neither content nor file: the resolver raises and
  \<^verbatim>\<open>get_snippets\<close> returns nothing.
\<close>

theorem get_snippets_hard_failure_counterexample:
  "length (snippet_stack broken_skillet) = 2
   \<and> fst (get_snippets example_fs broken_skillet snippet_store) =
       Inl (SkilletLoaderException ''YAMLError: Could not parse metadata file for snippet broken'')"
  by (simp add: get_snippets_def broken_skillet_def new_PanosSkillet_def snippet_store_def example_fs_def
        load_element_def Let_def)

text \<open>
  C5, amended. \<^verbatim>\<open>get_snippets\<close> returns exactly when the resolver raises on none of the
  definitions of the stack that have no \<^verbatim>\<open>cmd\<close> or the \<^verbatim>\<open>cmd\<close> \<^verbatim>\<open>set\<close>; a file that
  \<^verbatim>\<open>exists()\<close> reports as missing is no such case, an exception of \<^verbatim>\<open>resolve()\<close>, \<^verbatim>\<open>exists()\<close>,
  \<^verbatim>\<open>open()\<close> or \<^verbatim>\<open>read()\<close> is one. What it returns is the stack itself, one snippet per definition, in the order
  of the stack and each paired with the capability of the skillet, so its length is that of
  the stack. A definition with any other \<^verbatim>\<open>cmd\<close> is never resolved: its dict is afterwards
  what it was.
\<close>

theorem get_snippets_keeps_stack_order:
  "\<exists>r w'. get_snippets fs self w = (r, w')
     \<and> ((\<exists>xs. r = Inr xs) \<longleftrightarrow>
          (\<forall>a\<in>set (snippet_stack self). resolved_by_get_snippets (dicts w ! a) \<longrightarrow>
             \<not> load_element_raises fs (path self) (dicts w ! a)))
     \<and> (\<forall>xs. r = Inr xs \<longrightarrow>
           xs = map (\<lambda>a. PanosSnippet a (panoply self)) (snippet_stack self)
           \<and> length xs = length (snippet_stack self))
     \<and> (\<forall>b. \<not> resolved_by_get_snippets (dicts w ! b) \<longrightarrow> dicts w' ! b = dicts w ! b)"
proof -
  obtain r w' where run: "get_snippets_loop fs self (path self) (snippet_stack self) w [] = (r, w')"
    by (cases "get_snippets_loop fs self (path self) (snippet_stack self) w []")
  have returns: "(\<exists>xs. r = Inr xs) \<longleftrightarrow>
      (\<forall>a\<in>set (snippet_stack self). resolved_by_get_snippets (dicts w ! a) \<longrightarrow>
         \<not> load_element_raises fs (path self) (dicts w ! a))"
  proof
    assume "\<exists>xs. r = Inr xs"
    then show "\<forall>a\<in>set (snippet_stack self). resolved_by_get_snippets (dicts w ! a) \<longrightarrow>
        \<not> load_element_raises fs (path self) (dicts w ! a)"
      using get_snippets_loop_raises [of _ "snippet_stack self" w fs "path self" self "[]"] run
      by fastforce
  next
    assume "\<forall>a\<in>set (snippet_stack self). resolved_by_get_snippets (dicts w ! a) \<longrightarrow>
        \<not> load_element_raises fs (path self) (dicts w ! a)"
    from get_snippets_loop_returns [OF this, of self "[]"] run
    show "\<exists>xs. r = Inr xs"
      by auto
  qed
  have order: "xs = map (\<lambda>a. PanosSnippet a (panoply self)) (snippet_stack self)
      \<and> length xs = length (snippet_stack self)" if "r = Inr xs" for xs
    using get_snippets_loop_result [of fs self "path self" "snippet_stack self" w "[]" xs w'] run that
    by simp
  have untouched: "dicts w' ! b = dicts w ! b" if "\<not> resolved_by_get_snippets (dicts w ! b)" for b
    using get_snippets_loop_untouched [OF run that] .
  show ?thesis
    unfolding get_snippets_def using run returns order untouched by auto
qed

theorem get_snippets_keeps_stack_order_witness:
  "fst (get_snippets example_fs fresh_skillet snippet_store) =
     Inr [PanosSnippet 0 None, PanosSnippet 1 None, PanosSnippet 2 None]
   \<and> dicts (snd (get_snippets example_fs fresh_skillet snippet_store)) ! 2 =
       dicts snippet_store ! 2"
proof -
  have stack: "snippet_stack fresh_skillet = [0, 1, 2]" "panoply fresh_skillet = None"
    "path fresh_skillet = ''/skillets/example''"
    by (simp_all add: fresh_skillet_def new_PanosSkillet_def)
  have ok: "\<forall>a\<in>set (snippet_stack fresh_skillet).
      resolved_by_get_snippets (dicts snippet_store ! a) \<longrightarrow>
        \<not> load_element_raises example_fs (path fresh_skillet) (dicts snippet_store ! a)"
    by (simp add: stack snippet_store_def example_fs_def load_element_raises_def
          load_element_def resolved_by_get_snippets_def emit_def Let_def)
  have pass: "\<not> resolved_by_get_snippets (dicts snippet_store ! 2)"
    by (simp add: snippet_store_def resolved_by_get_snippets_def)
  show ?thesis
    using get_snippets_keeps_stack_order [of example_fs fresh_skillet snippet_store] ok pass
    by (auto simp: stack)
qed

text \<open>A definition whose content is settled stays so, whatever the resolver is run on.\<close>

lemma load_element_settled_stable:
  assumes "load_element fs w snippet_def snippet_path = (r, w')"
    and "element_settled fs snippet_path (dicts w ! b)"
  shows "element_settled fs snippet_path (dicts w' ! b)"
proof (cases "b = snippet_def")
  case False
  then have "dicts w' ! b = dicts w ! b"
    by (rule load_element_frame(2) [OF assms(1)])
  then show ?thesis
    using assms(2) by simp
next
  case True
  from load_element_dict [OF assms(1)] show ?thesis
  proof
    assume "dicts w' ! snippet_def = dicts w ! snippet_def"
    then show ?thesis
      using assms(2) True by simp
  next
    assume "\<exists>fname p content. element_missing (dicts w ! snippet_def)
        \<and> (dicts w ! snippet_def) ''file'' = Some (PyStr fname)
        \<and> joinpath_resolve fs snippet_path fname = Inr p
        \<and> path_exists fs p = Inr True \<and> open_read fs p = Inr content
        \<and> dicts w' ! snippet_def = (dicts w ! snippet_def)(''element'' \<mapsto> PyStr content)"
    then show ?thesis
      using True by (auto simp: element_settled_def names_empty_file_def element_missing_def)
  qed
qed

lemma get_snippets_loop_settled_stable:
  "get_snippets_loop fs self snippet_path stack w acc = (r, w') \<Longrightarrow>
     element_settled fs snippet_path (dicts w ! b) \<Longrightarrow>
     element_settled fs snippet_path (dicts w' ! b)"
proof (induction stack arbitrary: w acc)
  case Nil
  then show ?case by simp
next
  case (Cons a rest)
  from Cons.prems(1) show ?case
  proof (cases rule: get_snippets_loop_Cons)
    case pass
    then show ?thesis using Cons.IH Cons.prems(2) by blast
  next
    case (raise e)
    then show ?thesis
      using load_element_settled_stable Cons.prems(2) by blast
  next
    case (load w1)
    have "element_settled fs snippet_path (dicts w1 ! b)"
      using load_element_settled_stable [OF load(2) Cons.prems(2)] .
    from Cons.IH [OF load(3) this] show ?thesis .
  qed
qed

text \<open>The resolver writes text only: an \<^verbatim>\<open>element\<close> that is not a string was there before.\<close>

lemma load_element_writes_text:
  assumes "load_element fs w snippet_def snippet_path = (r, w')"
    and "(dicts w' ! b) ''element'' = Some v"
    and "\<forall>s. v \<noteq> PyStr s"
  shows "(dicts w ! b) ''element'' = Some v"
proof (cases "b = snippet_def")
  case False
  then have "dicts w' ! b = dicts w ! b"
    by (rule load_element_frame(2) [OF assms(1)])
  then show ?thesis
    using assms(2) by simp
next
  case True
  then show ?thesis
    using load_element_dict [OF assms(1)] assms(2,3) by auto
qed

lemma get_snippets_loop_writes_text:
  "get_snippets_loop fs self snippet_path stack w acc = (r, w') \<Longrightarrow>
     (dicts w' ! b) ''element'' = Some v \<Longrightarrow> \<forall>s. v \<noteq> PyStr s \<Longrightarrow>
     (dicts w ! b) ''element'' = Some v"
proof (induction stack arbitrary: w acc)
  case Nil
  then show ?case by simp
next
  case (Cons a rest)
  from Cons.prems(1) show ?case
  proof (cases rule: get_snippets_loop_Cons)
    case pass
    then show ?thesis using Cons.IH Cons.prems(2,3) by blast
  next
    case (raise e)
    then show ?thesis
      using load_element_writes_text Cons.prems(2,3) by blast
  next
    case (load w1)
    have "(dicts w1 ! b) ''element'' = Some v"
      using Cons.IH [OF load(3) Cons.prems(2,3)] .
    from load_element_writes_text [OF load(2) this Cons.prems(3)] show ?thesis .
  qed
qed

text \<open>The resolver has returned: the content is settled, or the missing file was logged.\<close>

lemma load_element_settled_or_logged:
  assumes "load_element fs w snippet_def snippet_path = (Inr snippet_def', w')"
    and "snippet_def < length (dicts w)"
  shows "element_settled fs snippet_path (dicts w' ! snippet_def)
         \<or> (\<exists>n. (dicts w ! snippet_def) ''name'' = Some n
                \<and> trace w' = trace w @
                    [LoggerError (''Could not load the referenced file for '' @ py_str n)])"
  using load_element_world [OF assms(1)] assms(2)
  by (auto simp: element_settled_def names_empty_file_def element_missing_def
        emit_def setitem_def)

lemma get_snippets_loop_settled_or_logged:
  "get_snippets_loop fs self snippet_path stack w acc = (Inr xs, w') \<Longrightarrow>
     a \<in> set stack \<Longrightarrow> a < length (dicts w) \<Longrightarrow> resolved_by_get_snippets (dicts w ! a) \<Longrightarrow>
     element_settled fs snippet_path (dicts w' ! a)
     \<or> (\<exists>n. (dicts w ! a) ''name'' = Some n
            \<and> LoggerError (''Could not load the referenced file for '' @ py_str n)
                 \<in> set (drop (length (trace w)) (trace w')))"
proof (induction stack arbitrary: w acc)
  case Nil
  then show ?case by simp
next
  case (Cons b rest)
  from Cons.prems(1) show ?case
  proof (cases rule: get_snippets_loop_Cons)
    case pass
    then have "a \<in> set rest"
      using Cons.prems(2,4) by auto
    from Cons.IH [OF pass(2) this Cons.prems(3,4)] show ?thesis .
  next
    case (raise e)
    then show ?thesis by simp
  next
    case (load w1)
    obtain tr1 where tr1: "trace w1 = trace w @ tr1"
      using load_element_frame(4) [OF load(2)] by blast
    obtain tr2 where tr2: "trace w' = trace w1 @ tr2"
      using get_snippets_loop_frame [OF load(3)] by blast
    show ?thesis
    proof (cases "a = b")
      case True
      from load_element_settled_or_logged [OF load(2)] Cons.prems(3) True
      consider (settled) "element_settled fs snippet_path (dicts w1 ! a)"
        | (logged) n where "(dicts w ! a) ''name'' = Some n"
            "trace w1 = trace w @
               [LoggerError (''Could not load the referenced file for '' @ py_str n)]"
        by blast
      then show ?thesis
      proof cases
        case settled
        then show ?thesis
          using get_snippets_loop_settled_stable [OF load(3)] by blast
      next
        case (logged n)
        then show ?thesis
          using tr2 by auto
      qed
    next
      case False
      then have in_rest: "a \<in> set rest"
        using Cons.prems(2) by simp
      have len: "a < length (dicts w1)"
        using load_element_frame(1) [OF load(2)] Cons.prems(3) by simp
      have same: "dicts w1 ! a = dicts w ! a"
        using load_element_frame(2) [OF load(2) False] .
      have "resolved_by_get_snippets (dicts w1 ! a)"
        using Cons.prems(4) same by simp
      from Cons.IH [OF load(3) in_rest len this]
      show ?thesis
        using same tr1 tr2 by auto
    qed
  qed
qed

text \<open>
  C7, as the code has it. The claim fails on a definition that names an empty file: the
  resolver reads the file, \<^verbatim>\<open>element\<close> is the empty string afterwards, and nothing is logged.
  It fails as well on a definition whose \<^verbatim>\<open>element\<close> is the \<^verbatim>\<open>None\<close> of a YAML null: the
  resolver leaves it as it is, so there is no content afterwards, and nothing is logged.
\<close>

theorem get_snippets_empty_file_counterexample:
  "(dicts snippet_store ! 4) ''cmd'' = None
   \<and> (dicts snippet_store ! 6) ''cmd'' = None
   \<and> fst (get_snippets example_fs blank_skillet snippet_store) =
       Inr [PanosSnippet 4 None, PanosSnippet 6 None]
   \<and> (dicts (snd (get_snippets example_fs blank_skillet snippet_store)) ! 4) ''element'' =
       Some (PyStr [])
   \<and> (dicts (snd (get_snippets example_fs blank_skillet snippet_store)) ! 6) ''element'' =
       Some PyNone
   \<and> trace (snd (get_snippets example_fs blank_skillet snippet_store)) = []"
  by (simp add: get_snippets_def blank_skillet_def new_PanosSkillet_def snippet_store_def
        example_fs_def load_element_def setitem_def Let_def)

text \<open>
  C7, amended. When \<^verbatim>\<open>get_snippets\<close> has returned, every definition of the stack that has no
  \<^verbatim>\<open>cmd\<close> or the \<^verbatim>\<open>cmd\<close> \<^verbatim>\<open>set\<close> is in one of four states: its \<^verbatim>\<open>element\<close> is a string that is
  not empty; or its \<^verbatim>\<open>element\<close> is a value that is not a string, such as \<^verbatim>\<open>None\<close>, which it
  had before the call and which the resolver left as it was; or the failure to load its
  file was logged under its name during the call; or its \<^verbatim>\<open>file\<close> names a file that exists
  and reads as the empty text, and its \<^verbatim>\<open>element\<close> is the empty string.
\<close>

theorem get_snippets_element_or_logged:
  assumes "get_snippets fs self w = (Inr xs, w')"
    and "a \<in> set (snippet_stack self)"
    and "a < length (dicts w)"
    and "resolved_by_get_snippets (dicts w ! a)"
  shows "(\<exists>s. (dicts w' ! a) ''element'' = Some (PyStr s) \<and> s \<noteq> [])
         \<or> (\<exists>v. (dicts w' ! a) ''element'' = Some v \<and> (\<forall>s. v \<noteq> PyStr s)
                \<and> (dicts w ! a) ''element'' = Some v)
         \<or> (\<exists>n. (dicts w ! a) ''name'' = Some n
                \<and> LoggerError (''Could not load the referenced file for '' @ py_str n)
                     \<in> set (drop (length (trace w)) (trace w')))
         \<or> (names_empty_file fs (path self) (dicts w ! a)
                \<and> (dicts w' ! a) ''element'' = Some (PyStr []))"
proof -
  have run: "get_snippets_loop fs self (path self) (snippet_stack self) w [] = (Inr xs, w')"
    using assms(1) by (simp add: get_snippets_def)
  have same_file: "(dicts w' ! a) ''file'' = (dicts w ! a) ''file''"
    using get_snippets_loop_frame [OF run] by simp
  then have names: "names_empty_file fs (path self) (dicts w' ! a) =
      names_empty_file fs (path self) (dicts w ! a)"
    by (simp add: names_empty_file_def)
  from get_snippets_loop_settled_or_logged [OF run assms(2-4)]
  consider (content) "\<not> element_missing (dicts w' ! a)"
    | (blank) "names_empty_file fs (path self) (dicts w ! a)"
        "(dicts w' ! a) ''element'' = Some (PyStr [])"
    | (logged) n where "(dicts w ! a) ''name'' = Some n"
        "LoggerError (''Could not load the referenced file for '' @ py_str n)
           \<in> set (drop (length (trace w)) (trace w'))"
    using names by (auto simp: element_settled_def)
  then show ?thesis
  proof cases
    case content
    then obtain v where v: "(dicts w' ! a) ''element'' = Some v" "v \<noteq> PyStr []"
      by (auto simp: element_missing_def)
    show ?thesis
    proof (cases "\<exists>s. v = PyStr s")
      case True
      then show ?thesis using v by auto
    next
      case False
      then have "(dicts w ! a) ''element'' = Some v"
        using get_snippets_loop_writes_text [OF run v(1)] by simp
      then show ?thesis using v(1) False by auto
    qed
  next
    case blank
    then show ?thesis by simp
  next
    case (logged n)
    then show ?thesis by blast
  qed
qed

theorem get_snippets_element_or_logged_witness:
  "fst (get_snippets example_fs fresh_skillet snippet_store) =
     Inr [PanosSnippet 0 None, PanosSnippet 1 None, PanosSnippet 2 None]
   \<and> element_missing (dicts (snd (get_snippets example_fs fresh_skillet snippet_store)) ! 1)
   \<and> LoggerError ''Could not load the referenced file for missing''
       \<in> set (trace (snd (get_snippets example_fs fresh_skillet snippet_store)))"
proof -
  have run: "get_snippets example_fs fresh_skillet snippet_store =
      (Inr [PanosSnippet 0 None, PanosSnippet 1 None, PanosSnippet 2 None],
       \<lparr>dicts = dicts snippet_store,
        trace = [LoggerError ''Could not load the referenced file for missing'']\<rparr>)"
    by (simp add: get_snippets_def fresh_skillet_def new_PanosSkillet_def snippet_store_def
          example_fs_def load_element_def emit_def Let_def)
  have hyps: "1 \<in> set (snippet_stack fresh_skillet)" "1 < length (dicts snippet_store)"
    "resolved_by_get_snippets (dicts snippet_store ! 1)"
    by (simp_all add: fresh_skillet_def new_PanosSkillet_def snippet_store_def
          resolved_by_get_snippets_def)
  have missing: "element_missing (dicts snippet_store ! 1)"
    "(dicts snippet_store ! 1) ''name'' = Some (PyStr ''missing'')"
    "(dicts snippet_store ! 1) ''element'' = None" "trace snippet_store = []"
    by (simp_all add: snippet_store_def element_missing_def)
  from get_snippets_element_or_logged [OF run hyps]
  show ?thesis
    using missing by (auto simp: run)
qed

end
